theory Spec2Isabelle
  imports
    Complex_Main
    "HOL-Library.Char_ord"
    "HOL-Library.List_Lexorder"
    "HOL-Library.Product_Lexorder"
begin

section \<open>The movement scanner of app.py\<close>

text \<open>
  The development embeds \<^verbatim>\<open>get_stocks_with_movement\<close> and the scan loop of
  \<^verbatim>\<open>src/app.py\<close>. The pandas operations the function uses are written out on a small
  model of a data frame: a list of column labels and a list of rows, each row giving the
  cell of every label.

  Numbers. A cell is a float64 in the source. Here a cell is \<open>NaN\<close>, an infinity or a
  finite value, and a finite value is a real number: the special values behave as in
  IEEE 754 (a division by zero gives an infinity or \<open>NaN\<close> and raises nothing, every
  comparison with \<open>NaN\<close> is false), while finite arithmetic is exact, so binary rounding
  error, overflow and the sign of zero are left out. On every concrete input used below
  float64 arithmetic gives the same percentages.
\<close>

subsection \<open>Cells\<close>

datatype fval = NaN | NInf | Fin real | PInf

fun fsub :: "fval \<Rightarrow> fval \<Rightarrow> fval" where
  "fsub (Fin x) (Fin y) = Fin (x - y)"
| "fsub NaN _ = NaN"
| "fsub _ NaN = NaN"
| "fsub PInf PInf = NaN"
| "fsub NInf NInf = NaN"
| "fsub PInf _ = PInf"
| "fsub NInf _ = NInf"
| "fsub (Fin x) PInf = NInf"
| "fsub (Fin x) NInf = PInf"

fun fdiv :: "fval \<Rightarrow> fval \<Rightarrow> fval" where
  "fdiv (Fin x) (Fin y) =
     (if y = 0 then (if x = 0 then NaN else if 0 < x then PInf else NInf)
      else Fin (x / y))"
| "fdiv NaN _ = NaN"
| "fdiv _ NaN = NaN"
| "fdiv (Fin x) PInf = Fin 0"
| "fdiv (Fin x) NInf = Fin 0"
| "fdiv PInf (Fin y) = (if 0 \<le> y then PInf else NInf)"
| "fdiv NInf (Fin y) = (if 0 \<le> y then NInf else PInf)"
| "fdiv PInf _ = NaN"
| "fdiv NInf _ = NaN"

fun fmul :: "fval \<Rightarrow> fval \<Rightarrow> fval" where
  "fmul (Fin x) (Fin y) = Fin (x * y)"
| "fmul NaN _ = NaN"
| "fmul _ NaN = NaN"
| "fmul PInf (Fin y) = (if y = 0 then NaN else if 0 < y then PInf else NInf)"
| "fmul NInf (Fin y) = (if y = 0 then NaN else if 0 < y then NInf else PInf)"
| "fmul (Fin x) PInf = (if x = 0 then NaN else if 0 < x then PInf else NInf)"
| "fmul (Fin x) NInf = (if x = 0 then NaN else if 0 < x then NInf else PInf)"
| "fmul PInf PInf = PInf"
| "fmul NInf NInf = PInf"
| "fmul PInf NInf = NInf"
| "fmul NInf PInf = NInf"

text \<open>\<^verbatim>\<open>movements >= min_pct\<close> and \<^verbatim>\<open>movements <= max_pct\<close>, cell by cell. The bounds
  are finite numbers (the sliders of the app give integers).\<close>

fun fge :: "fval \<Rightarrow> real \<Rightarrow> bool" where
  "fge (Fin x) m = (m \<le> x)"
| "fge PInf m = True"
| "fge NInf m = False"
| "fge NaN m = False"

fun fle :: "fval \<Rightarrow> real \<Rightarrow> bool" where
  "fle (Fin x) m = (x \<le> m)"
| "fle NInf m = True"
| "fle PInf m = False"
| "fle NaN m = False"

text \<open>\<^verbatim>\<open>round(pct, 2)\<close>: the value is scaled by 100, rounded to the nearest integer with
  ties going to the even one, and scaled back; \<open>NaN\<close> and the infinities are returned
  unchanged.\<close>

definition round_half_even :: "real \<Rightarrow> int" where
  "round_half_even x =
     (let f = \<lfloor>x\<rfloor>; d = x - of_int f
      in if d < 1 / 2 then f else if 1 / 2 < d then f + 1
         else if even f then f else f + 1)"

fun round2 :: "fval \<Rightarrow> fval" where
  "round2 (Fin x) = Fin (of_int (round_half_even (x * 100)) / 100)"
| "round2 v = v"

subsection \<open>Exceptions\<close>

datatype exn = KeyError | IndexError | DownloadError

definition raise_bind :: "exn + 'a \<Rightarrow> ('a \<Rightarrow> exn + 'b) \<Rightarrow> exn + 'b" where
  "raise_bind m f = (case m of Inl e \<Rightarrow> Inl e | Inr x \<Rightarrow> f x)"

subsection \<open>Price data\<close>

type_synonym label = string

record bar =
  bar_open :: fval
  bar_high :: fval
  bar_low :: fval
  bar_close :: fval

datatype field = Open_f | High_f | Low_f | Close_f

fun field_name :: "field \<Rightarrow> label" where
  "field_name Open_f = ''Open''"
| "field_name High_f = ''High''"
| "field_name Low_f = ''Low''"
| "field_name Close_f = ''Close''"

fun bar_get :: "field \<Rightarrow> bar \<Rightarrow> fval" where
  "bar_get Open_f b = bar_open b"
| "bar_get High_f b = bar_high b"
| "bar_get Low_f b = bar_low b"
| "bar_get Close_f b = bar_close b"

text \<open>
  What \<^verbatim>\<open>yf.download\<close> returns. \<open>Multi cols rows\<close> is a frame whose columns are a
  MultiIndex (field, ticker): \<open>cols\<close> are the tickers in column order and every row
  (one per timestamp) gives each ticker its bar. \<open>Flat rows\<close> is a frame with the plain
  columns Open, High, Low, Close of a single ticker. \<open>Lacking f d\<close> is the frame \<open>d\<close>
  come back without the columns of the price field \<open>f\<close> (a malformed answer; its other
  columns, such as Volume, are still there).
\<close>

datatype data = Flat "bar list" | Multi "label list" "(label \<Rightarrow> bar) list" | Lacking field data

record frame =
  columns :: "label list"
  rws :: "(label \<Rightarrow> fval) list"

text \<open>\<^verbatim>\<open>data.empty\<close>: some axis has length 0.\<close>

fun data_empty :: "data \<Rightarrow> bool" where
  "data_empty (Flat bars) = (bars = [])"
| "data_empty (Multi cols rows) = (cols = [] \<or> rows = [])"
| "data_empty (Lacking f d) = data_empty d"

text \<open>\<^verbatim>\<open>data['Open']\<close> on a MultiIndex (one column per ticker) and \<^verbatim>\<open>data[['Open']]\<close>
  on plain columns (the single column keeps the label of the field). Either raises
  KeyError when the frame has no column of that field.\<close>

definition multi_frame :: "label list \<Rightarrow> (label \<Rightarrow> bar) list \<Rightarrow> field \<Rightarrow> frame" where
  "multi_frame cols rows f = \<lparr>columns = cols, rws = map (\<lambda>r c. bar_get f (r c)) rows\<rparr>"

definition flat_frame :: "bar list \<Rightarrow> field \<Rightarrow> frame" where
  "flat_frame bars f =
     \<lparr>columns = [field_name f],
      rws = map (\<lambda>b c. if c = field_name f then bar_get f b else NaN) bars\<rparr>"

fun select_field :: "data \<Rightarrow> field \<Rightarrow> exn + frame" where
  "select_field (Multi cols rows) f = Inr (multi_frame cols rows f)"
| "select_field (Flat bars) f = Inr (flat_frame bars f)"
| "select_field (Lacking g d) f = (if f = g then Inl KeyError else select_field d f)"

subsection \<open>Frame operations\<close>

text \<open>
  Arithmetic between two frames aligns them on their column labels: equal column
  indexes are kept as they are, otherwise the result has the sorted union of the labels
  and a cell is \<open>NaN\<close> wherever one operand lacks the label. Both operands come from the
  same \<open>data\<close>, so their rows pair up.
\<close>

definition align :: "label list \<Rightarrow> label list \<Rightarrow> label list" where
  "align a b = (if a = b then a else sort (remdups (a @ b)))"

definition frame_binop :: "(fval \<Rightarrow> fval \<Rightarrow> fval) \<Rightarrow> frame \<Rightarrow> frame \<Rightarrow> frame" where
  "frame_binop f A B =
     \<lparr>columns = align (columns A) (columns B),
      rws = map (\<lambda>(ra, rb) c.
                   if c \<in> set (columns A) \<and> c \<in> set (columns B) then f (ra c) (rb c)
                   else NaN)
                (zip (rws A) (rws B))\<rparr>"

definition frame_map :: "(fval \<Rightarrow> fval) \<Rightarrow> frame \<Rightarrow> frame" where
  "frame_map g A = \<lparr>columns = columns A, rws = map (\<lambda>r c. g (r c)) (rws A)\<rparr>"

text \<open>\<^verbatim>\<open>.dropna(how='all')\<close>: a row goes when every one of its cells is \<open>NaN\<close>.\<close>

definition dropna_all :: "frame \<Rightarrow> frame" where
  "dropna_all A =
     \<lparr>columns = columns A,
      rws = filter (\<lambda>r. \<not> list_all (\<lambda>c. r c = NaN) (columns A)) (rws A)\<rparr>"

text \<open>\<^verbatim>\<open>movements[(movements >= min_pct) & (movements <= max_pct)]\<close>: indexing a frame by
  a boolean frame keeps the shape and puts \<open>NaN\<close> where the mask is false.\<close>

definition in_band :: "real \<Rightarrow> real \<Rightarrow> fval \<Rightarrow> bool" where
  "in_band min_pct max_pct v = (fge v min_pct \<and> fle v max_pct)"

definition mask_band :: "real \<Rightarrow> real \<Rightarrow> fval \<Rightarrow> fval" where
  "mask_band min_pct max_pct v = (if in_band min_pct max_pct v then v else NaN)"

subsection \<open>Series access\<close>

text \<open>\<^verbatim>\<open>frame[symbol]\<close> raises KeyError for a label the frame lacks; \<^verbatim>\<open>.iloc[0]\<close> and
  \<^verbatim>\<open>.iloc[-1]\<close> raise IndexError on a series without rows.\<close>

definition getcol :: "frame \<Rightarrow> label \<Rightarrow> exn + fval list" where
  "getcol A c = (if c \<in> set (columns A) then Inr (map (\<lambda>r. r c) (rws A)) else Inl KeyError)"

definition iloc_first :: "fval list \<Rightarrow> exn + fval" where
  "iloc_first xs = (case xs of [] \<Rightarrow> Inl IndexError | x # _ \<Rightarrow> Inr x)"

definition iloc_last :: "fval list \<Rightarrow> exn + fval" where
  "iloc_last xs = (if xs = [] then Inl IndexError else Inr (last xs))"

subsection \<open>The scanner\<close>

record movement_record =
  Symbol :: label
  Movement :: fval
  Open :: fval
  High :: fval
  Low :: fval
  Close :: fval
  Sector :: string

text \<open>Python's truth value of \<^verbatim>\<open>sector_filter\<close>: \<^verbatim>\<open>None\<close> and the empty string are false.\<close>

fun truthy :: "string option \<Rightarrow> bool" where
  "truthy None = False"
| "truthy (Some s) = (s \<noteq> [])"

text \<open>The body of the loop over \<^verbatim>\<open>filtered.columns\<close> (lines 66 to 80): the records
  appended for one symbol, or the exception raised.\<close>

definition scan_symbol ::
  "frame \<Rightarrow> frame \<Rightarrow> frame \<Rightarrow> frame \<Rightarrow> frame \<Rightarrow> string option \<Rightarrow> label
     \<Rightarrow> exn + movement_record list" where
  "scan_symbol filtered opens highs lows closes sector_filter symbol =
     raise_bind (getcol filtered symbol) (\<lambda>col.
     raise_bind (if col \<noteq> [] then raise_bind (iloc_last col) (\<lambda>v. Inr (Some v)) else Inr None)
       (\<lambda>pct. case pct of
          None \<Rightarrow> Inr []
        | Some p \<Rightarrow>
            (let sector = ''Unknown'' in
             if truthy sector_filter \<and> Some sector \<noteq> sector_filter then Inr []
             else
               raise_bind (raise_bind (getcol opens symbol) iloc_first) (\<lambda>op.
               raise_bind (raise_bind (getcol highs symbol) iloc_last) (\<lambda>hi.
               raise_bind (raise_bind (getcol lows symbol) iloc_last) (\<lambda>lo.
               raise_bind (raise_bind (getcol closes symbol) iloc_last) (\<lambda>cl.
                 Inr [\<lparr>Symbol = symbol, Movement = round2 p, Open = op, High = hi,
                       Low = lo, Close = cl, Sector = sector\<rparr>])))))))"

fun scan_columns ::
  "frame \<Rightarrow> frame \<Rightarrow> frame \<Rightarrow> frame \<Rightarrow> frame \<Rightarrow> string option \<Rightarrow> label list
     \<Rightarrow> exn + movement_record list" where
  "scan_columns filtered opens highs lows closes sector_filter [] = Inr []"
| "scan_columns filtered opens highs lows closes sector_filter (symbol # rest) =
     raise_bind (scan_symbol filtered opens highs lows closes sector_filter symbol) (\<lambda>recs.
     raise_bind (scan_columns filtered opens highs lows closes sector_filter rest) (\<lambda>more.
       Inr (recs @ more)))"

text \<open>Lines 47 to 81, the part of the \<^verbatim>\<open>try\<close> block after the download.\<close>

definition scan_data :: "data \<Rightarrow> real \<Rightarrow> real \<Rightarrow> string option \<Rightarrow> exn + movement_record list" where
  "scan_data d min_pct max_pct sector_filter =
     (if data_empty d then Inr []
      else
        raise_bind (select_field d Open_f) (\<lambda>opens.
        raise_bind (select_field d Close_f) (\<lambda>closes.
        raise_bind (select_field d High_f) (\<lambda>highs.
        raise_bind (select_field d Low_f) (\<lambda>lows.
          let movements = dropna_all
                (frame_map (\<lambda>v. fmul v (Fin 100))
                   (frame_binop fdiv (frame_binop fsub highs lows) lows));
              filtered = dropna_all (frame_map (mask_band min_pct max_pct) movements)
          in scan_columns filtered opens highs lows closes sector_filter
               (columns filtered))))))"

text \<open>
  The clock read by \<^verbatim>\<open>datetime.now(pytz.timezone('Asia/Kolkata'))\<close>: the calendar day
  as a day number (so that \<^verbatim>\<open>now - timedelta(days=1)\<close> is the day before), and the hour
  and minute of the wall clock in that timezone. A date string \<^verbatim>\<open>'%Y-%m-%d'\<close> is
  identified with the day number it prints.
\<close>

record clock =
  day :: int
  hour :: nat
  minute :: nat

definition resolve_date :: "int option \<Rightarrow> clock \<Rightarrow> int" where
  "resolve_date selected_date now =
     (case selected_date of
        Some d \<Rightarrow> d
      | None \<Rightarrow>
          if hour now < 9 \<or> (hour now = 9 \<and> minute now < 15) \<or> 15 < hour now
             \<or> (hour now = 15 \<and> 30 < minute now)
          then day now - 1
          else day now)"

datatype interval = Minute1 | Day1

text \<open>
  The price-data provider is a parameter: \<open>download symbols start end interval\<close> is the
  frame \<^verbatim>\<open>yf.download\<close> returns, or the exception it raises. \<open>live_key\<close> is the truth of
  \<^verbatim>\<open>'live' in st.session_state\<close>. The result is the list of rows of the returned
  DataFrame; it is empty exactly when \<^verbatim>\<open>df.empty\<close> holds. The message shown by
  \<^verbatim>\<open>st.error\<close> in the handler is not part of the result.
\<close>

type_synonym provider = "label list \<Rightarrow> int \<Rightarrow> int \<Rightarrow> interval \<Rightarrow> exn + data"

definition get_stocks_with_movement ::
  "provider \<Rightarrow> clock \<Rightarrow> bool \<Rightarrow> label list \<Rightarrow> real \<Rightarrow> real \<Rightarrow> int option \<Rightarrow> string option
     \<Rightarrow> movement_record list" where
  "get_stocks_with_movement download now live_key symbols min_pct max_pct selected_date
       sector_filter =
     (let d = resolve_date selected_date now in
      case raise_bind (download symbols d d (if live_key then Minute1 else Day1))
             (\<lambda>dat. scan_data dat min_pct max_pct sector_filter) of
        Inl e \<Rightarrow> []
      | Inr df \<Rightarrow> df)"

subsection \<open>The scan loop\<close>

text \<open>\<^verbatim>\<open>xs[i:i+n] for i in range(0, len(xs), n)\<close>.\<close>

definition batches_of :: "nat \<Rightarrow> 'a list \<Rightarrow> 'a list list" where
  "batches_of n xs = map (\<lambda>k. take n (drop (k * n) xs)) [0 ..< (length xs + n - 1) div n]"

text \<open>
  \<^verbatim>\<open>sort_values('Movement (%)', ascending=False)\<close>: descending, \<open>NaN\<close> last. The key
  below is ascending in that order. pandas sorts with quicksort, which fixes no order
  among equal keys; \<open>sort_key\<close> keeps them in their order of arrival.
\<close>

fun desc_rank :: "fval \<Rightarrow> nat \<times> real" where
  "desc_rank PInf = (0, 0)"
| "desc_rank (Fin x) = (1, - x)"
| "desc_rank NInf = (2, 0)"
| "desc_rank NaN = (3, 0)"

definition sort_values_desc :: "movement_record list \<Rightarrow> movement_record list" where
  "sort_values_desc df = sort_key (\<lambda>r. desc_rank (Movement r)) df"

text \<open>Lines 119 to 127 over a given list of batches; \<open>None\<close> is the branch that shows
  "No stocks match criteria" and builds no table.\<close>

definition scan_batches ::
  "provider \<Rightarrow> clock \<Rightarrow> bool \<Rightarrow> label list list \<Rightarrow> real \<Rightarrow> real \<Rightarrow> int \<Rightarrow> string option
     \<Rightarrow> movement_record list option" where
  "scan_batches download now live_key batches min_pct max_pct selected_date sector_filter =
     (let results = filter (\<lambda>df_batch. df_batch \<noteq> [])
            (map (\<lambda>batch. get_stocks_with_movement download now live_key batch min_pct max_pct
                             (Some selected_date) sector_filter) batches)
      in if results \<noteq> [] then Some (sort_values_desc (concat results)) else None)"

definition scan_now ::
  "provider \<Rightarrow> clock \<Rightarrow> bool \<Rightarrow> label list \<Rightarrow> real \<Rightarrow> real \<Rightarrow> int \<Rightarrow> string option
     \<Rightarrow> movement_record list option" where
  "scan_now download now live_key all_symbols min_pct max_pct selected_date sector_filter =
     scan_batches download now live_key (batches_of 500 all_symbols) min_pct max_pct
       selected_date sector_filter"

text \<open>The rows of the final table, none when no table is built.\<close>

definition final_rows :: "movement_record list option \<Rightarrow> movement_record list" where
  "final_rows r = (case r of None \<Rightarrow> [] | Some df \<Rightarrow> df)"

subsection \<open>Notions used to state the results\<close>

text \<open>The answer of the provider to the call at line 46.\<close>

definition request :: "provider \<Rightarrow> clock \<Rightarrow> bool \<Rightarrow> label list \<Rightarrow> int option \<Rightarrow> exn + data" where
  "request download now live_key symbols selected_date =
     download symbols (resolve_date selected_date now) (resolve_date selected_date now)
       (if live_key then Minute1 else Day1)"

text \<open>The movement percentage of one bar, as line 61 computes every cell.\<close>

definition movement_pct :: "bar \<Rightarrow> fval" where
  "movement_pct b = fmul (fdiv (fsub (bar_high b) (bar_low b)) (bar_low b)) (Fin 100)"

text \<open>The rows of a table in which some ticker of the table is in the band: the rows of
  \<^verbatim>\<open>filtered\<close>.\<close>

definition band_rows :: "real \<Rightarrow> real \<Rightarrow> label list \<Rightarrow> (label \<Rightarrow> bar) list \<Rightarrow> (label \<Rightarrow> bar) list" where
  "band_rows min_pct max_pct cols rows =
     filter (\<lambda>r. list_ex (\<lambda>c. in_band min_pct max_pct (movement_pct (r c))) cols) rows"

definition sector_blocks :: "string option \<Rightarrow> bool" where
  "sector_blocks sector_filter = (truthy sector_filter \<and> sector_filter \<noteq> Some ''Unknown'')"

definition emitted :: "real \<Rightarrow> real \<Rightarrow> label list \<Rightarrow> (label \<Rightarrow> bar) list \<Rightarrow> label \<Rightarrow> movement_record" where
  "emitted min_pct max_pct cols rows symbol =
     \<lparr>Symbol = symbol,
      Movement = round2 (mask_band min_pct max_pct
                   (movement_pct (last (band_rows min_pct max_pct cols rows) symbol))),
      Open = bar_open (hd rows symbol),
      High = bar_high (last rows symbol),
      Low = bar_low (last rows symbol),
      Close = bar_close (last rows symbol),
      Sector = ''Unknown''\<rparr>"

text \<open>The trading session of the specification: 09:15 to 15:30, both ends included, on
  the minutes of the wall clock.\<close>

definition minute_of_day :: "clock \<Rightarrow> nat" where
  "minute_of_day now = 60 * hour now + minute now"

definition in_session :: "clock \<Rightarrow> bool" where
  "in_session now = (9 * 60 + 15 \<le> minute_of_day now \<and> minute_of_day now \<le> 15 * 60 + 30)"

subsection \<open>Concrete inputs\<close>

definition known_bar :: "real \<Rightarrow> real \<Rightarrow> real \<Rightarrow> real \<Rightarrow> bar" where
  "known_bar op hi lo cl =
     \<lparr>bar_open = Fin op, bar_high = Fin hi, bar_low = Fin lo, bar_close = Fin cl\<rparr>"

definition absent_bar :: bar where
  "absent_bar = \<lparr>bar_open = NaN, bar_high = NaN, bar_low = NaN, bar_close = NaN\<rparr>"

text \<open>One daily row: FOO moves 6 percent, BAR 30 percent, QUX 1 percent, BAZ has a low
  of zero and every other ticker has no data.\<close>

definition daily_row :: "label \<Rightarrow> bar" where
  "daily_row t =
     (if t = ''FOO'' then known_bar 100 106 100 104
      else if t = ''BAR'' then known_bar 100 130 100 120
      else if t = ''BAZ'' then known_bar 1 5 0 2
      else if t = ''QUX'' then known_bar 100 101 100 100
      else absent_bar)"

definition daily_provider :: provider where
  "daily_provider symbols start end iv = Inr (Multi symbols [daily_row])"

text \<open>A provider that fails for the batch BAD and answers the batch CUT without the
  High columns.\<close>

definition failing_provider :: provider where
  "failing_provider symbols start end iv =
     (if symbols = [''BAD''] then Inl DownloadError
      else if symbols = [''CUT''] then Inr (Lacking High_f (Multi symbols [daily_row]))
      else daily_provider symbols start end iv)"

definition empty_provider :: provider where
  "empty_provider symbols start end iv = Inr (Multi [] [])"

definition ten_o_clock :: clock where
  "ten_o_clock = \<lparr>day = 739000, hour = 10, minute = 0\<rparr>"

text \<open>The bars of a ticker that are there, in the words of the specification: a bar is
  absent when none of its four values is given.\<close>

definition bar_absent :: "bar \<Rightarrow> bool" where
  "bar_absent b = (bar_open b = NaN \<and> bar_high b = NaN \<and> bar_low b = NaN \<and> bar_close b = NaN)"

definition available_bars :: "(label \<Rightarrow> bar) list \<Rightarrow> label \<Rightarrow> bar list" where
  "available_bars rows symbol = filter (\<lambda>b. \<not> bar_absent b) (map (\<lambda>r. r symbol) rows)"

text \<open>Two minute rows: AAA and BBB are in the band in the first row only, CCC and DDD
  in the second only.\<close>

definition minute_row1 :: "label \<Rightarrow> bar" where
  "minute_row1 t =
     (if t = ''AAA'' then known_bar 100 106 100 104
      else if t = ''BBB'' then known_bar 50 54 50 52
      else if t = ''CCC'' then known_bar 200 202 200 201
      else if t = ''DDD'' then known_bar 20 20 20 20
      else absent_bar)"

definition minute_row2 :: "label \<Rightarrow> bar" where
  "minute_row2 t =
     (if t = ''AAA'' then known_bar 104 105 104 105
      else if t = ''BBB'' then known_bar 52 52 52 52
      else if t = ''CCC'' then known_bar 201 220 200 210
      else if t = ''DDD'' then known_bar 20 23 20 22
      else absent_bar)"

definition minute_provider :: provider where
  "minute_provider symbols start end iv = Inr (Multi symbols [minute_row1, minute_row2])"

text \<open>Two minute rows where FOO has no bar in the first.\<close>

definition gap_row1 :: "label \<Rightarrow> bar" where
  "gap_row1 t = (if t = ''BAR'' then known_bar 50 54 50 52 else absent_bar)"

definition gap_row2 :: "label \<Rightarrow> bar" where
  "gap_row2 t =
     (if t = ''FOO'' then known_bar 100 106 100 104
      else if t = ''BAR'' then known_bar 52 54 50 53
      else absent_bar)"

definition gap_provider :: provider where
  "gap_provider symbols start end iv = Inr (Multi symbols [gap_row1, gap_row2])"


section \<open>What the scanner computes\<close>

lemma get_stocks_request:
  "get_stocks_with_movement download now live symbols mn mx sd sf =
     (case raise_bind (request download now live symbols sd) (\<lambda>dat. scan_data dat mn mx sf) of
        Inl e \<Rightarrow> [] | Inr df \<Rightarrow> df)"
  by (simp add: get_stocks_with_movement_def request_def Let_def)

lemma scan_columns_Inr:
  "(\<And>c. c \<in> set syms \<Longrightarrow> scan_symbol F op hi lo cl sf c = Inr (g c))
   \<Longrightarrow> scan_columns F op hi lo cl sf syms = Inr (concat (map g syms))"
  by (induction syms) (simp_all add: raise_bind_def)

lemma scan_symbol_Inr:
  assumes "c \<in> set (columns F)" "c \<in> set (columns op)" "c \<in> set (columns hi)"
    "c \<in> set (columns lo)" "c \<in> set (columns cl)"
    "rws op \<noteq> []" "rws hi \<noteq> []" "rws lo \<noteq> []" "rws cl \<noteq> []"
  shows "scan_symbol F op hi lo cl sf c =
    Inr (if rws F = [] \<or> sector_blocks sf then []
         else [\<lparr>Symbol = c, Movement = round2 (last (rws F) c), Open = hd (rws op) c,
                High = last (rws hi) c, Low = last (rws lo) c, Close = last (rws cl) c,
                Sector = ''Unknown''\<rparr>])"
  using assms
  by (auto simp: scan_symbol_def getcol_def raise_bind_def iloc_last_def iloc_first_def
      sector_blocks_def last_map hd_map Let_def split: list.splits)

lemma movements_Multi:
  "frame_map (\<lambda>v. fmul v (Fin 100))
     (frame_binop fdiv (frame_binop fsub (multi_frame cols rows High_f)
        (multi_frame cols rows Low_f)) (multi_frame cols rows Low_f))
   = \<lparr>columns = cols,
      rws = map (\<lambda>r c. if c \<in> set cols then movement_pct (r c) else NaN) rows\<rparr>"
  by (auto simp: frame_map_def frame_binop_def align_def movement_pct_def zip_map_map
         zip_same_conv_map fun_eq_iff multi_frame_def)

lemma mask_band_NaN [simp]: "mask_band mn mx NaN = NaN"
  by (simp add: mask_band_def)

lemma in_band_not_NaN: "in_band mn mx v \<Longrightarrow> v \<noteq> NaN"
  by (cases v) (auto simp: in_band_def)

lemma mask_band_eq_NaN: "mask_band mn mx v = NaN \<longleftrightarrow> \<not> in_band mn mx v"
  using in_band_not_NaN by (auto simp: mask_band_def)

lemma filtered_Multi:
  "dropna_all (frame_map (mask_band mn mx) (dropna_all
      \<lparr>columns = cols, rws = map (\<lambda>r c. if c \<in> set cols then movement_pct (r c) else NaN) rows\<rparr>))
   = \<lparr>columns = cols,
      rws = map (\<lambda>r c. if c \<in> set cols then mask_band mn mx (movement_pct (r c)) else NaN)
              (band_rows mn mx cols rows)\<rparr>"
proof -
  have a: "list_all (\<lambda>c. (if c \<in> set cols then f c else NaN) = NaN) cols = list_all (\<lambda>c. f c = NaN) cols" for f :: "label \<Rightarrow> fval"
    by (simp add: list_all_iff)
  have b: "(\<not> list_all (\<lambda>c. movement_pct (r c) = NaN) cols \<and>
            \<not> list_all (\<lambda>c. mask_band mn mx (movement_pct (r c)) = NaN) cols)
          = list_ex (\<lambda>c. in_band mn mx (movement_pct (r c))) cols" for r
    using in_band_not_NaN by (auto simp: list_all_iff list_ex_iff mask_band_eq_NaN)
  have c: "(\<lambda>r c. mask_band mn mx (if c \<in> set cols then movement_pct (r c) else NaN))
           = (\<lambda>r c. if c \<in> set cols then mask_band mn mx (movement_pct (r c)) else NaN)"
    by (simp add: fun_eq_iff)
  show ?thesis
    by (simp add: dropna_all_def frame_map_def filter_map o_def a b c band_rows_def conj_commute)
qed

lemma scan_data_Multi:
  assumes "cols \<noteq> []" "rows \<noteq> []"
  shows "scan_data (Multi cols rows) mn mx sf =
     Inr (if band_rows mn mx cols rows = [] \<or> sector_blocks sf then []
          else map (emitted mn mx cols rows) cols)"
proof -
  let ?F = "\<lparr>columns = cols,
      rws = map (\<lambda>r c. if c \<in> set cols then mask_band mn mx (movement_pct (r c)) else NaN)
              (band_rows mn mx cols rows)\<rparr>"
  let ?g = "\<lambda>c. if band_rows mn mx cols rows = [] \<or> sector_blocks sf then []
                 else [emitted mn mx cols rows c]"
  have sym: "scan_symbol ?F (multi_frame cols rows Open_f)
       (multi_frame cols rows High_f) (multi_frame cols rows Low_f)
       (multi_frame cols rows Close_f) sf c = Inr (?g c)" if "c \<in> set cols" for c
    using that assms
    by (subst scan_symbol_Inr) (auto simp: emitted_def last_map hd_map multi_frame_def)
  have "scan_data (Multi cols rows) mn mx sf =
      scan_columns ?F (multi_frame cols rows Open_f)
       (multi_frame cols rows High_f) (multi_frame cols rows Low_f)
       (multi_frame cols rows Close_f) sf cols"
    using assms
    by (simp add: scan_data_def raise_bind_def Let_def movements_Multi filtered_Multi)
  also have "\<dots> = Inr (concat (map ?g cols))"
    by (rule scan_columns_Inr) (rule sym)
  also have "concat (map ?g cols) = (if band_rows mn mx cols rows = [] \<or> sector_blocks sf then []
          else map (emitted mn mx cols rows) cols)"
    by (induction cols) auto
  finally show ?thesis .
qed

text \<open>On a frame with plain columns the labels High and Low do not align, every movement
  is \<open>NaN\<close> and nothing is emitted.\<close>

lemma align_High_Low:
  "align [''High''] [''Low''] = [''High'', ''Low'']"
  "align [''High'', ''Low''] [''Low''] = [''High'', ''Low'']"
  by (simp_all add: align_def)

lemma movements_Flat:
  "frame_map (\<lambda>v. fmul v (Fin 100))
     (frame_binop fdiv (frame_binop fsub (flat_frame bars High_f)
        (flat_frame bars Low_f)) (flat_frame bars Low_f))
   = \<lparr>columns = [''High'', ''Low''], rws = map (\<lambda>b c. NaN) bars\<rparr>"
  by (auto simp: frame_map_def frame_binop_def align_High_Low zip_map_map
         zip_same_conv_map fun_eq_iff flat_frame_def)

lemma scan_data_Flat: "scan_data (Flat bars) mn mx sf = Inr []"
proof -
  have h: "dropna_all \<lparr>columns = [''High'', ''Low''], rws = map (\<lambda>b c. NaN) bars\<rparr>
      = \<lparr>columns = [''High'', ''Low''], rws = []\<rparr>"
    by (simp add: dropna_all_def filter_map o_def)
  have k: "dropna_all (frame_map (mask_band mn mx) \<lparr>columns = [''High'', ''Low''], rws = []\<rparr>)
      = \<lparr>columns = [''High'', ''Low''], rws = []\<rparr>"
    by (simp add: dropna_all_def frame_map_def)
  show ?thesis
    by (simp add: scan_data_def raise_bind_def Let_def movements_Flat h k scan_symbol_def
        getcol_def)
qed

text \<open>A frame that lacks a price field raises KeyError at lines 51 to 59, unless it is
  empty.\<close>

lemma select_field_Inl: "select_field d f = Inl e \<Longrightarrow> e = KeyError"
  by (induction d) (auto split: if_splits)

lemma scan_data_Lacking:
  "scan_data (Lacking g d) mn mx sf = (if data_empty d then Inr [] else Inl KeyError)"
  by (cases g)
     (auto simp: scan_data_def raise_bind_def split: sum.splits dest: select_field_Inl)

lemma scan_data_eq:
  "scan_data d mn mx sf =
     (case d of
        Flat bars \<Rightarrow> Inr []
      | Multi cols rows \<Rightarrow>
          Inr (if cols = [] \<or> rows = [] \<or> band_rows mn mx cols rows = [] \<or> sector_blocks sf
               then [] else map (emitted mn mx cols rows) cols)
      | Lacking g d' \<Rightarrow> if data_empty d' then Inr [] else Inl KeyError)"
proof (cases d)
  case (Flat bars)
  then show ?thesis by (simp add: scan_data_Flat)
next
  case (Multi cols rows)
  show ?thesis
  proof (cases "cols = [] \<or> rows = []")
    case True
    then show ?thesis using Multi by (auto simp: scan_data_def)
  next
    case False
    then show ?thesis using Multi scan_data_Multi [of cols rows mn mx sf] by auto
  qed
next
  case (Lacking g d')
  then show ?thesis by (simp add: scan_data_Lacking)
qed

lemma get_stocks_eq:
  "get_stocks_with_movement download now live symbols mn mx sd sf =
     (case request download now live symbols sd of
        Inl e \<Rightarrow> []
      | Inr (Flat bars) \<Rightarrow> []
      | Inr (Multi cols rows) \<Rightarrow>
          if cols = [] \<or> rows = [] \<or> band_rows mn mx cols rows = [] \<or> sector_blocks sf
          then [] else map (emitted mn mx cols rows) cols
      | Inr (Lacking g d) \<Rightarrow> [])"
  by (simp add: get_stocks_request raise_bind_def scan_data_eq split: sum.splits data.splits)

lemmas eval_defs = get_stocks_eq request_def resolve_date_def band_rows_def emitted_def
  movement_pct_def in_band_def mask_band_def sector_blocks_def round_half_even_def
  known_bar_def absent_bar_def Let_def

subsection \<open>The scan loop in closed form\<close>

lemma concat_filter_nonempty: "concat (filter (\<lambda>xs. xs \<noteq> []) xss) = concat xss"
  by (induction xss) auto

lemma filter_nonempty_Nil: "filter (\<lambda>xs. xs \<noteq> []) xss = [] \<longleftrightarrow> concat xss = []"
  by (induction xss) auto

lemma scan_batches_eq:
  "scan_batches download now live batches mn mx date sf =
     (if concat (map (\<lambda>b. get_stocks_with_movement download now live b mn mx (Some date) sf)
                  batches) = [] then None
      else Some (sort_values_desc
             (concat (map (\<lambda>b. get_stocks_with_movement download now live b mn mx (Some date) sf)
                        batches))))"
  unfolding scan_batches_def Let_def concat_filter_nonempty filter_nonempty_Nil
  by simp

lemma minute_AB:
  "get_stocks_with_movement minute_provider ten_o_clock True [''AAA'', ''BBB''] 3 20 (Some 738999) None =
  [\<lparr>Symbol = ''AAA'', Movement = Fin 6, Open = Fin 100, High = Fin 105, Low = Fin 104, Close = Fin 105, Sector = ''Unknown''\<rparr>,
   \<lparr>Symbol = ''BBB'', Movement = Fin 8, Open = Fin 50, High = Fin 52, Low = Fin 52, Close = Fin 52, Sector = ''Unknown''\<rparr>]"
  by (simp add: eval_defs minute_provider_def minute_row1_def minute_row2_def)

lemma minute_CD:
  "get_stocks_with_movement minute_provider ten_o_clock True [''CCC'', ''DDD''] 3 20 (Some 738999) None =
  [\<lparr>Symbol = ''CCC'', Movement = Fin 10, Open = Fin 200, High = Fin 220, Low = Fin 200, Close = Fin 210, Sector = ''Unknown''\<rparr>,
   \<lparr>Symbol = ''DDD'', Movement = Fin 15, Open = Fin 20, High = Fin 23, Low = Fin 20, Close = Fin 22, Sector = ''Unknown''\<rparr>]"
  by (simp add: eval_defs minute_provider_def minute_row1_def minute_row2_def)

lemma minute_ABCD:
  "get_stocks_with_movement minute_provider ten_o_clock True [''AAA'', ''BBB'', ''CCC'', ''DDD''] 3 20 (Some 738999) None =
  [\<lparr>Symbol = ''AAA'', Movement = NaN, Open = Fin 100, High = Fin 105, Low = Fin 104, Close = Fin 105, Sector = ''Unknown''\<rparr>,
   \<lparr>Symbol = ''BBB'', Movement = NaN, Open = Fin 50, High = Fin 52, Low = Fin 52, Close = Fin 52, Sector = ''Unknown''\<rparr>,
   \<lparr>Symbol = ''CCC'', Movement = Fin 10, Open = Fin 200, High = Fin 220, Low = Fin 200, Close = Fin 210, Sector = ''Unknown''\<rparr>,
   \<lparr>Symbol = ''DDD'', Movement = Fin 15, Open = Fin 20, High = Fin 23, Low = Fin 20, Close = Fin 22, Sector = ''Unknown''\<rparr>]"
  by (simp add: eval_defs minute_provider_def minute_row1_def minute_row2_def)

section \<open>The claims\<close>

text \<open>
  C1. For every ticker whose bar has a positive low and a high, the movement percentage
  of its record is (high - low) / low * 100 rounded to two decimals. The scanner does
  not do this: in a batch where FOO is in the band, BAR (high 130, low 100) gets a
  record as well, and its percentage is \<open>NaN\<close>, not 30.
\<close>

theorem movement_pct_lost_outside_band:
  "get_stocks_with_movement daily_provider ten_o_clock True [''FOO'', ''BAR''] 3 20
       (Some 738999) None =
     [\<lparr>Symbol = ''FOO'', Movement = Fin 6, Open = Fin 100, High = Fin 106, Low = Fin 100,
       Close = Fin 104, Sector = ''Unknown''\<rparr>,
      \<lparr>Symbol = ''BAR'', Movement = NaN, Open = Fin 100, High = Fin 130, Low = Fin 100,
       Close = Fin 120, Sector = ''Unknown''\<rparr>]
   \<and> round2 (movement_pct (daily_row ''BAR'')) = Fin 30"
  by (simp add: eval_defs daily_provider_def daily_row_def)

text \<open>
  C2. Every record of the output has a movement percentage within the band, both bounds
  included. The scanner breaks this: with the band from 3 to 20, QUX (1 percent) is
  emitted next to FOO, with a percentage that is not in the band.
\<close>

theorem band_violated:
  "\<not> list_all (\<lambda>r. in_band 3 20 (Movement r))
       (get_stocks_with_movement daily_provider ten_o_clock True [''FOO'', ''QUX''] 3 20
          (Some 738999) None)"
  by (simp add: eval_defs daily_provider_def daily_row_def)

text \<open>
  C3. A ticker whose low is zero, or whose high or low is missing, is left out of the
  output, and nothing is raised. Nothing is raised, but the ticker is not left out: BAZ
  (low zero) and NIL (no data) are both emitted when FOO, of the same batch, is in the
  band.
\<close>

theorem zero_low_emitted:
  "map Symbol (get_stocks_with_movement daily_provider ten_o_clock True
       [''FOO'', ''BAZ'', ''NIL''] 3 20 (Some 738999) None) = [''FOO'', ''BAZ'', ''NIL'']
   \<and> bar_low (daily_row ''BAZ'') = Fin 0 \<and> bar_high (daily_row ''NIL'') = NaN"
  by (simp add: eval_defs daily_provider_def daily_row_def)

text \<open>
  C4. Concatenating the results of the batches of any partition of the tickers and
  sorting gives the same records, in the same order, as one scan of all tickers. The
  scan loop does not do this. On one daily row, the batches FOO, BAR and BAZ, QUX give
  two rows, and the single batch gives four: a ticker outside the band is emitted, with
  \<open>NaN\<close>, exactly when some ticker of its batch is in the band. On two minute rows, AAA and
  BBB get 6 and 8 percent when scanned as a batch of their own and \<open>NaN\<close> when scanned
  together with CCC and DDD.
\<close>

theorem batch_partition_changes_output:
  "map Symbol (final_rows (scan_batches daily_provider ten_o_clock True
         [[''FOO'', ''BAR''], [''BAZ'', ''QUX'']] 3 20 738999 None)) = [''FOO'', ''BAR'']
   \<and> map Symbol (final_rows (scan_batches daily_provider ten_o_clock True
         [[''FOO'', ''BAR'', ''BAZ'', ''QUX'']] 3 20 738999 None))
       = [''FOO'', ''BAR'', ''BAZ'', ''QUX'']
   \<and> map Movement (final_rows (scan_batches minute_provider ten_o_clock True
         [[''AAA'', ''BBB''], [''CCC'', ''DDD'']] 3 20 738999 None)) = [Fin 15, Fin 10, Fin 8, Fin 6]
   \<and> map Movement (final_rows (scan_batches minute_provider ten_o_clock True
         [[''AAA'', ''BBB'', ''CCC'', ''DDD'']] 3 20 738999 None)) = [Fin 15, Fin 10, NaN, NaN]"
proof -
  have d1: "get_stocks_with_movement daily_provider ten_o_clock True [''FOO'', ''BAR''] 3 20
      (Some 738999) None =
     [\<lparr>Symbol = ''FOO'', Movement = Fin 6, Open = Fin 100, High = Fin 106, Low = Fin 100,
       Close = Fin 104, Sector = ''Unknown''\<rparr>,
      \<lparr>Symbol = ''BAR'', Movement = NaN, Open = Fin 100, High = Fin 130, Low = Fin 100,
       Close = Fin 120, Sector = ''Unknown''\<rparr>]"
    by (simp add: eval_defs daily_provider_def daily_row_def)
  have d2: "get_stocks_with_movement daily_provider ten_o_clock True [''BAZ'', ''QUX''] 3 20
      (Some 738999) None = []"
    by (simp add: eval_defs daily_provider_def daily_row_def)
  have d3: "get_stocks_with_movement daily_provider ten_o_clock True
      [''FOO'', ''BAR'', ''BAZ'', ''QUX''] 3 20 (Some 738999) None =
     [\<lparr>Symbol = ''FOO'', Movement = Fin 6, Open = Fin 100, High = Fin 106, Low = Fin 100,
       Close = Fin 104, Sector = ''Unknown''\<rparr>,
      \<lparr>Symbol = ''BAR'', Movement = NaN, Open = Fin 100, High = Fin 130, Low = Fin 100,
       Close = Fin 120, Sector = ''Unknown''\<rparr>,
      \<lparr>Symbol = ''BAZ'', Movement = NaN, Open = Fin 1, High = Fin 5, Low = Fin 0,
       Close = Fin 2, Sector = ''Unknown''\<rparr>,
      \<lparr>Symbol = ''QUX'', Movement = NaN, Open = Fin 100, High = Fin 101, Low = Fin 100,
       Close = Fin 100, Sector = ''Unknown''\<rparr>]"
    by (simp add: eval_defs daily_provider_def daily_row_def)
  have a: "map Symbol (final_rows (scan_batches daily_provider ten_o_clock True
         [[''FOO'', ''BAR''], [''BAZ'', ''QUX'']] 3 20 738999 None)) = [''FOO'', ''BAR'']"
    by (simp add: scan_batches_eq final_rows_def d1 d2 sort_values_desc_def)
  have b: "map Symbol (final_rows (scan_batches daily_provider ten_o_clock True
         [[''FOO'', ''BAR'', ''BAZ'', ''QUX'']] 3 20 738999 None))
       = [''FOO'', ''BAR'', ''BAZ'', ''QUX'']"
    by (simp add: scan_batches_eq final_rows_def d3 sort_values_desc_def)
  have c: "map Movement (final_rows (scan_batches minute_provider ten_o_clock True
         [[''AAA'', ''BBB''], [''CCC'', ''DDD'']] 3 20 738999 None)) = [Fin 15, Fin 10, Fin 8, Fin 6]"
    by (simp add: scan_batches_eq final_rows_def minute_AB minute_CD sort_values_desc_def)
  have d: "map Movement (final_rows (scan_batches minute_provider ten_o_clock True
         [[''AAA'', ''BBB'', ''CCC'', ''DDD'']] 3 20 738999 None)) = [Fin 15, Fin 10, NaN, NaN]"
    by (simp add: scan_batches_eq final_rows_def minute_ABCD sort_values_desc_def)
  show ?thesis using a b c d by simp
qed

text \<open>
  C5. When the retrieval or the shaping of a batch raises an exception, the scanner
  returns the empty sequence for that batch, and the scan loop goes on: its result is
  the sorted concatenation of what the scanner returns for the other batches, those
  after the failing batch included.
\<close>

theorem provider_failure_absorbed:
  assumes "request download now live batch (Some date) = Inl e \<or>
           (\<exists>d. request download now live batch (Some date) = Inr d \<and>
                scan_data d mn mx sf = Inl e)"
  shows "get_stocks_with_movement download now live batch mn mx (Some date) sf = [] \<and>
         scan_batches download now live (before @ batch # after) mn mx date sf =
           (if concat (map (\<lambda>b. get_stocks_with_movement download now live b mn mx
                                   (Some date) sf) (before @ after)) = []
            then None
            else Some (sort_values_desc
                   (concat (map (\<lambda>b. get_stocks_with_movement download now live b mn mx
                                        (Some date) sf) (before @ after)))))"
proof -
  have "get_stocks_with_movement download now live batch mn mx (Some date) sf = []"
    using assms by (auto simp: get_stocks_request raise_bind_def)
  then show ?thesis by (simp add: scan_batches_eq)
qed

theorem provider_failure_absorbed_witness:
  "request failing_provider ten_o_clock True [''BAD''] (Some 738999) = Inl DownloadError \<and>
   request failing_provider ten_o_clock True [''CUT''] (Some 738999)
     = Inr (Lacking High_f (Multi [''CUT''] [daily_row])) \<and>
   scan_data (Lacking High_f (Multi [''CUT''] [daily_row])) 3 40 None = Inl KeyError \<and>
   get_stocks_with_movement failing_provider ten_o_clock True [''BAD''] 3 40 (Some 738999) None = [] \<and>
   get_stocks_with_movement failing_provider ten_o_clock True [''CUT''] 3 40 (Some 738999) None = [] \<and>
   scan_batches failing_provider ten_o_clock True
       ([[''FOO'']] @ [''BAD''] # [[''CUT''], [''BAR'']]) 3 40 738999 None =
     Some [\<lparr>Symbol = ''BAR'', Movement = Fin 30, Open = Fin 100, High = Fin 130, Low = Fin 100,
             Close = Fin 120, Sector = ''Unknown''\<rparr>,
           \<lparr>Symbol = ''FOO'', Movement = Fin 6, Open = Fin 100, High = Fin 106, Low = Fin 100,
             Close = Fin 104, Sector = ''Unknown''\<rparr>]"
proof -
  have bad: "request failing_provider ten_o_clock True [''BAD''] (Some 738999) = Inl DownloadError"
    by (simp add: request_def failing_provider_def)
  have cut: "request failing_provider ten_o_clock True [''CUT''] (Some 738999)
     = Inr (Lacking High_f (Multi [''CUT''] [daily_row]))"
    by (simp add: request_def failing_provider_def)
  have key: "scan_data (Lacking High_f (Multi [''CUT''] [daily_row])) 3 40 None = Inl KeyError"
    by (simp add: scan_data_Lacking)
  have h1: "request failing_provider ten_o_clock True [''BAD''] (Some 738999) = Inl DownloadError \<or>
           (\<exists>d. request failing_provider ten_o_clock True [''BAD''] (Some 738999) = Inr d \<and>
                scan_data d 3 40 None = Inl DownloadError)"
    using bad by simp
  have h2: "request failing_provider ten_o_clock True [''CUT''] (Some 738999) = Inl KeyError \<or>
           (\<exists>d. request failing_provider ten_o_clock True [''CUT''] (Some 738999) = Inr d \<and>
                scan_data d 3 40 None = Inl KeyError)"
    using cut key by simp
  have foo: "get_stocks_with_movement failing_provider ten_o_clock True [''FOO''] 3 40
      (Some 738999) None =
     [\<lparr>Symbol = ''FOO'', Movement = Fin 6, Open = Fin 100, High = Fin 106, Low = Fin 100,
       Close = Fin 104, Sector = ''Unknown''\<rparr>]"
    by (simp add: eval_defs failing_provider_def daily_provider_def daily_row_def)
  have bar: "get_stocks_with_movement failing_provider ten_o_clock True [''BAR''] 3 40
      (Some 738999) None =
     [\<lparr>Symbol = ''BAR'', Movement = Fin 30, Open = Fin 100, High = Fin 130, Low = Fin 100,
       Close = Fin 120, Sector = ''Unknown''\<rparr>]"
    by (simp add: eval_defs failing_provider_def daily_provider_def daily_row_def)
  note t1 = provider_failure_absorbed [OF h1, of "[[''FOO'']]" "[[''CUT''], [''BAR'']]"]
  note t2 = provider_failure_absorbed [OF h2, of "[[''FOO'']]" "[[''BAR'']]"]
  have e2: "get_stocks_with_movement failing_provider ten_o_clock True [''CUT''] 3 40
      (Some 738999) None = []"
    using t2 by simp
  show ?thesis
    using t1 by (simp add: bad cut key e2 foo bar sort_values_desc_def)
qed

text \<open>
  C6, as amended. In every record, Open is the value of the ticker in the first row of
  the table of its batch, and High, Low and Close are its values in the last row of that
  table, whether or not the ticker has a bar in that row; in a table of one row the two
  rows are the same.
\<close>

theorem ohlc_first_last_row:
  assumes "request download now live symbols sd = Inr (Multi cols rows)"
      and "r \<in> set (get_stocks_with_movement download now live symbols mn mx sd sf)"
  shows "rows \<noteq> [] \<and> Symbol r \<in> set cols \<and>
         Open r = bar_open (hd rows (Symbol r)) \<and>
         High r = bar_high (last rows (Symbol r)) \<and>
         Low r = bar_low (last rows (Symbol r)) \<and>
         Close r = bar_close (last rows (Symbol r)) \<and>
         (length rows = 1 \<longrightarrow> hd rows = last rows)"
proof -
  have "length rows = 1 \<longrightarrow> hd rows = last rows"
    by (cases rows) auto
  then show ?thesis
    using assms by (auto simp: get_stocks_eq emitted_def split: if_splits)
qed

theorem ohlc_first_last_row_witness:
  "map Symbol (get_stocks_with_movement gap_provider ten_o_clock True [''FOO'', ''BAR''] 3 20
       (Some 738999) None) = [''FOO'', ''BAR''] \<and>
   bar_open (gap_row1 ''FOO'') = NaN \<and>
   list_all (\<lambda>r. Open r = bar_open (gap_row1 (Symbol r)) \<and>
                 High r = bar_high (gap_row2 (Symbol r)) \<and>
                 Low r = bar_low (gap_row2 (Symbol r)) \<and>
                 Close r = bar_close (gap_row2 (Symbol r)))
     (get_stocks_with_movement gap_provider ten_o_clock True [''FOO'', ''BAR''] 3 20
        (Some 738999) None)"
proof -
  have a: "request gap_provider ten_o_clock True [''FOO'', ''BAR''] (Some 738999)
      = Inr (Multi [''FOO'', ''BAR''] [gap_row1, gap_row2])"
    by (simp add: request_def gap_provider_def)
  have b: "map Symbol (get_stocks_with_movement gap_provider ten_o_clock True [''FOO'', ''BAR''] 3 20
       (Some 738999) None) = [''FOO'', ''BAR'']"
    by (simp add: eval_defs gap_provider_def gap_row1_def gap_row2_def)
  have c: "bar_open (gap_row1 ''FOO'') = NaN"
    by (simp add: gap_row1_def absent_bar_def)
  have "Open r = bar_open (gap_row1 (Symbol r)) \<and>
        High r = bar_high (gap_row2 (Symbol r)) \<and>
        Low r = bar_low (gap_row2 (Symbol r)) \<and>
        Close r = bar_close (gap_row2 (Symbol r))"
    if "r \<in> set (get_stocks_with_movement gap_provider ten_o_clock True [''FOO'', ''BAR''] 3 20
        (Some 738999) None)" for r
    using ohlc_first_last_row [OF a that] by simp
  then show ?thesis using b c by (simp add: list_all_iff)
qed

text \<open>
  C6 as stated fails: FOO has no bar in the first row of the table and a bar in the
  second; its record has the Open of the first row, \<open>NaN\<close>, and not the Open of its
  first available bar, which is 100.
\<close>

theorem ohlc_counterexample:
  "map Symbol (get_stocks_with_movement gap_provider ten_o_clock True [''FOO'', ''BAR''] 3 20
       (Some 738999) None) = [''FOO'', ''BAR'']
   \<and> map Open (get_stocks_with_movement gap_provider ten_o_clock True [''FOO'', ''BAR''] 3 20
       (Some 738999) None) = [NaN, Fin 50]
   \<and> map bar_open (available_bars [gap_row1, gap_row2] ''FOO'') = [Fin 100]"
  by (simp add: eval_defs gap_provider_def gap_row1_def gap_row2_def available_bars_def bar_absent_def)

text \<open>
  C7. With no date given, the scan date is today exactly when the wall clock in
  Asia/Kolkata is within 09:15 to 15:30, both included, and the day before otherwise;
  the scanner then does what it does when given that date.
\<close>

theorem default_scan_date:
  assumes "minute now < 60"
  shows "resolve_date None now = (if in_session now then day now else day now - 1) \<and>
         get_stocks_with_movement download now live symbols mn mx None sf =
         get_stocks_with_movement download now live symbols mn mx
           (Some (if in_session now then day now else day now - 1)) sf"
proof -
  have "resolve_date None now = (if in_session now then day now else day now - 1)"
    using assms by (auto simp: resolve_date_def in_session_def minute_of_day_def)
  then show ?thesis
    by (simp add: get_stocks_with_movement_def resolve_date_def)
qed

theorem default_scan_date_witness:
  "resolve_date None ten_o_clock = 739000 \<and>
   resolve_date None \<lparr>day = 739000, hour = 15, minute = 31\<rparr> = 738999"
proof -
  have a: "minute ten_o_clock < 60" by (simp add: ten_o_clock_def)
  have b: "minute \<lparr>day = 739000, hour = 15, minute = 31\<rparr> < 60" by simp
  show ?thesis
    using default_scan_date [OF a, of daily_provider True "[]" 3 20 None]
      default_scan_date [OF b, of daily_provider True "[]" 3 20 None]
    by (simp add: in_session_def minute_of_day_def ten_o_clock_def)
qed

text \<open>
  C8, as amended. The Sector of every record is the placeholder \<open>Unknown\<close>. A sector
  filter that is absent, empty or equal to the placeholder removes nothing; any other
  sector filter removes every record.
\<close>

theorem sector_placeholder:
  "list_all (\<lambda>r. Sector r = ''Unknown'')
     (get_stocks_with_movement download now live symbols mn mx sd sf) \<and>
   get_stocks_with_movement download now live symbols mn mx sd sf =
     (if sf = None \<or> sf = Some [] \<or> sf = Some ''Unknown''
      then get_stocks_with_movement download now live symbols mn mx sd None else [])"
proof -
  have "sector_blocks sf \<longleftrightarrow> \<not> (sf = None \<or> sf = Some [] \<or> sf = Some ''Unknown'')"
    by (cases sf) (auto simp: sector_blocks_def)
  moreover have "\<not> sector_blocks None" by (simp add: sector_blocks_def)
  ultimately show ?thesis
    by (auto simp: get_stocks_eq list_all_iff emitted_def split: sum.splits data.splits)
qed

theorem sector_placeholder_witness:
  "get_stocks_with_movement daily_provider ten_o_clock True [''FOO''] 3 20 None (Some ''Unknown'') =
   get_stocks_with_movement daily_provider ten_o_clock True [''FOO''] 3 20 None None"
  using sector_placeholder [of daily_provider ten_o_clock True "[''FOO'']" 3 20 None "Some ''Unknown''"]
  by simp

text \<open>C8 as stated fails: the sector filter IT, one of the choices of the app, removes
  both records of a batch that has two without a filter.\<close>

theorem sector_filter_removes_all:
  "get_stocks_with_movement daily_provider ten_o_clock True [''FOO'', ''BAR''] 3 20
       (Some 738999) (Some ''IT'') = [] \<and>
   length (get_stocks_with_movement daily_provider ten_o_clock True [''FOO'', ''BAR''] 3 20
       (Some 738999) None) = 2"
  by (simp add: eval_defs daily_provider_def daily_row_def)

text \<open>
  C9. A scan of no tickers, or one whose table is empty, returns the empty sequence; it
  cannot fail. The provider is taken to answer with columns among the requested
  tickers. The scan loop over no tickers shows no table either.
\<close>

theorem empty_scan:
  assumes "\<And>cols rows. request download now live symbols sd = Inr (Multi cols rows)
             \<Longrightarrow> (symbols = [] \<and> set cols \<subseteq> set symbols) \<or> cols = [] \<or> rows = []"
  shows "get_stocks_with_movement download now live symbols mn mx sd sf = [] \<and>
         final_rows (scan_now download now live [] mn mx date sf) = []"
  using assms
  by (auto simp: get_stocks_eq scan_now_def scan_batches_def batches_of_def final_rows_def
      split: sum.splits data.splits)

theorem empty_scan_witness:
  "get_stocks_with_movement empty_provider ten_o_clock True [] 3 20 None None = [] \<and>
   final_rows (scan_now empty_provider ten_o_clock True [] 3 20 738999 None) = []"
proof -
  have "\<And>cols rows. request empty_provider ten_o_clock True [] None = Inr (Multi cols rows)
             \<Longrightarrow> ([] = ([]::label list) \<and> set cols \<subseteq> set []) \<or> cols = [] \<or> rows = []"
    by (simp add: request_def empty_provider_def)
  then show ?thesis by (rule empty_scan)
qed

end
